theory Spec2Isabelle
  imports Main
begin

section \<open>Python strings\<close>

text \<open>
  The command works on dotted paths. Three string operations of Python occur in it:
  \<^verbatim>\<open>name.startswith('_')\<close>, the substring test \<^verbatim>\<open>a in b\<close> (written
  \<^verbatim>\<open>a not in b\<close> in the source) and \<^verbatim>\<open>s.split('.')\<close>.
\<close>

fun startswith :: "string \<Rightarrow> string \<Rightarrow> bool" where
  "startswith s [] = True"
| "startswith [] (p # ps) = False"
| "startswith (c # cs) (p # ps) = (c = p \<and> startswith cs ps)"

text \<open>\<^verbatim>\<open>sub in s\<close> on strings: \<open>sub\<close> occurs in \<open>s\<close> as a contiguous block.\<close>

fun py_in :: "string \<Rightarrow> string \<Rightarrow> bool" where
  "py_in sub [] = (sub = [])"
| "py_in sub (c # cs) = (startswith (c # cs) sub \<or> py_in sub cs)"

text \<open>
  \<^verbatim>\<open>s.split(sep)\<close> for a one-character separator: the result is never empty, and an
  empty string gives one empty segment.
\<close>

fun str_split :: "char \<Rightarrow> string \<Rightarrow> string list" where
  "str_split sep [] = [[]]"
| "str_split sep (c # cs) =
     (if c = sep then [] # str_split sep cs
      else (case str_split sep cs of
              [] \<Rightarrow> [[c]]
            | w # ws \<Rightarrow> (c # w) # ws))"

text \<open>Truthiness of \<^verbatim>\<open>serializer_name\<close>: \<^verbatim>\<open>None\<close> and the empty string are falsy.\<close>

definition truthy :: "string option \<Rightarrow> bool" where
  "truthy s = (case s of None \<Rightarrow> False | Some n \<Rightarrow> n \<noteq> [])"

section \<open>The namespace tree\<close>

text \<open>
  A class as the command sees it: \<^verbatim>\<open>__module__\<close> (the spec's qualified origin),
  \<^verbatim>\<open>__name__\<close> (the declared name) and whether it is a subclass of
  \<^verbatim>\<open>BaseSerializer\<close>.
\<close>

record decl =
  qualified_origin :: string
  declared_name :: string
  is_serializer :: bool

text \<open>What a name of a module is bound to: a class, or anything else.\<close>

datatype pyval = Class decl | NonClass

text \<open>
  A module is the list of its bindings, in the order \<^verbatim>\<open>dir(module)\<close> lists the names,
  each with the value \<^verbatim>\<open>getattr(module, name)\<close> returns for it.
  \<^verbatim>\<open>sys.modules.get(name, None)\<close> is a partial map from dotted paths to modules.
\<close>

type_synonym module = "(string \<times> pyval) list"

type_synonym sys_modules = "string \<Rightarrow> module option"

text \<open>
  When the module is not loaded the source goes on with \<^verbatim>\<open>None\<close>, and
  \<^verbatim>\<open>dir(None)\<close> lists the attributes of \<^verbatim>\<open>NoneType\<close>.
\<close>

definition NoneType :: decl where
  "NoneType = \<lparr>qualified_origin = ''builtins'', declared_name = ''NoneType'', is_serializer = False\<rparr>"

definition dir_None :: module where
  "dir_None =
    [(''__bool__'', NonClass), (''__class__'', Class NoneType), (''__delattr__'', NonClass),
     (''__dir__'', NonClass), (''__doc__'', NonClass), (''__eq__'', NonClass),
     (''__format__'', NonClass), (''__ge__'', NonClass), (''__getattribute__'', NonClass),
     (''__getstate__'', NonClass), (''__gt__'', NonClass), (''__hash__'', NonClass),
     (''__init__'', NonClass), (''__init_subclass__'', NonClass), (''__le__'', NonClass),
     (''__lt__'', NonClass), (''__ne__'', NonClass), (''__new__'', NonClass),
     (''__reduce__'', NonClass), (''__reduce_ex__'', NonClass), (''__repr__'', NonClass),
     (''__setattr__'', NonClass), (''__sizeof__'', NonClass), (''__str__'', NonClass),
     (''__subclasshook__'', NonClass)]"

definition dir_py :: "module option \<Rightarrow> module" where
  "dir_py m = (case m of None \<Rightarrow> dir_None | Some b \<Rightarrow> b)"

section \<open>\<^verbatim>\<open>_get_serializers_for_module\<close>\<close>

text \<open>
  The body of the \<^verbatim>\<open>for\<close> loop, one binding at a time; every \<^verbatim>\<open>continue\<close> is a
  branch that goes on with the rest, and \<^verbatim>\<open>serializers.append\<close> puts the class in
  front of what the rest of the loop appends.
\<close>

fun scan :: "string \<Rightarrow> string option \<Rightarrow> module \<Rightarrow> decl list" where
  "scan module_name serializer_name [] = []"
| "scan module_name serializer_name ((serializer_class_name, NonClass) # rest) =
     scan module_name serializer_name rest"
| "scan module_name serializer_name ((serializer_class_name, Class serializer_class) # rest) =
     (if \<not> py_in module_name (qualified_origin serializer_class)
        then scan module_name serializer_name rest
      else if truthy serializer_name \<and> Some (declared_name serializer_class) \<noteq> serializer_name
        then scan module_name serializer_name rest
      else if is_serializer serializer_class
        then serializer_class # scan module_name serializer_name rest
      else scan module_name serializer_name rest)"

definition possibly_serializers :: "module option \<Rightarrow> module" where
  "possibly_serializers m = filter (\<lambda>(name, v). \<not> startswith name ''_'') (dir_py m)"

definition get_serializers_for_module :: "sys_modules \<Rightarrow> string \<Rightarrow> string option \<Rightarrow> decl list" where
  "get_serializers_for_module mods module_name serializer_name =
     scan module_name serializer_name (possibly_serializers (mods module_name))"

definition get_app_serializers :: "sys_modules \<Rightarrow> string \<Rightarrow> decl list" where
  "get_app_serializers mods app_name =
     get_serializers_for_module mods (app_name @ ''.serializers'') None"

definition get_submodule_serializers :: "sys_modules \<Rightarrow> string \<Rightarrow> decl list" where
  "get_submodule_serializers mods submodule =
     get_serializers_for_module mods submodule None"

text \<open>
  The dispatch on the number of segments in \<^verbatim>\<open>Command.handle\<close>: what one specifier
  string resolves to.
\<close>

definition resolve :: "sys_modules \<Rightarrow> string \<Rightarrow> decl list" where
  "resolve mods serializer =
     (case str_split CHR ''.'' serializer of
        [app_name] \<Rightarrow> get_app_serializers mods app_name
      | [app_name, serializer_name] \<Rightarrow>
          get_serializers_for_module mods app_name (Some serializer_name)
      | _ \<Rightarrow> get_submodule_serializers mods serializer)"

section \<open>\<^verbatim>\<open>Command._generate_ts\<close>\<close>

text \<open>
  The rendering options of one invocation (\<^verbatim>\<open>**options\<close>), handed unchanged to every call
  of the emitter.
\<close>

record options =
  trim :: bool
  camelize :: bool
  annotations :: bool
  enum_choices :: bool
  enum_values :: bool
  enum_keys :: bool

text \<open>\<^verbatim>\<open>Path(output) / app_name / 'index.ts'\<close>, kept as the term the source builds.\<close>

datatype py_path = Path string | Div py_path string

text \<open>
  What the command does to the outside, in the order it does it: the call
  \<^verbatim>\<open>ts_interface(context=app_name)(serializer_class)\<close>, the call
  \<^verbatim>\<open>generate_ts(output_path, context=app_name, ...)\<close> and the line written to
  \<^verbatim>\<open>self.stdout\<close>.
\<close>

datatype event =
    TsInterface string decl
  | GenerateTs py_path string options
  | StdoutWrite string

text \<open>
  \<^verbatim>\<open>serializer_class.__module__.split(".")[0]\<close>. The list \<^verbatim>\<open>split\<close> returns is never
  empty (\<open>str_split_not_Nil\<close> below), so the index 0 always exists.
\<close>

definition output_context :: "decl \<Rightarrow> string" where
  "output_context serializer_class = hd (str_split CHR ''.'' (qualified_origin serializer_class))"

definition command_generate_ts :: "string \<Rightarrow> options \<Rightarrow> decl \<Rightarrow> event list" where
  "command_generate_ts output opts serializer_class =
     (let app_name = output_context serializer_class;
          output_path = Div (Div (Path output) app_name) ''index.ts''
      in [TsInterface app_name serializer_class,
          GenerateTs output_path app_name opts,
          StdoutWrite (''[+] '' @ qualified_origin serializer_class @ ''.''
                         @ declared_name serializer_class)])"

section \<open>\<^verbatim>\<open>Command.handle\<close>\<close>

text \<open>
  The host registry: \<^verbatim>\<open>apps.get_app_configs()\<close> gives the installed packages with
  their name and filesystem path; \<^verbatim>\<open>str(settings.BASE_DIR.parent)\<close> is a string.
\<close>

record app_config =
  cfg_name :: string
  cfg_path :: string

record env =
  modules :: sys_modules
  app_configs :: "app_config list"
  base_dir_parent :: string

text \<open>
  The list \<^verbatim>\<open>serializers\<close> starts as the strings of the command line. Python does not
  type its elements: the \<^verbatim>\<open>--all\<close> branch extends it with what
  \<^verbatim>\<open>_get_app_serializers\<close> returns, which are classes.
\<close>

datatype item = Str string | Cls decl

datatype error =
    CommandError string
  | AttributeError decl string

text \<open>The loop over \<^verbatim>\<open>apps.get_app_configs()\<close>, with \<^verbatim>\<open>serializers += ...\<close>.\<close>

fun all_apps :: "env \<Rightarrow> app_config list \<Rightarrow> item list \<Rightarrow> item list" where
  "all_apps e [] serializers = serializers"
| "all_apps e (app # apps) serializers =
     (if \<not> py_in (base_dir_parent e) (cfg_path app) \<or> py_in ''.venv'' (cfg_path app)
        then all_apps e apps serializers
      else all_apps e apps
             (serializers @ map Cls (get_app_serializers (modules e) (cfg_name app))))"

text \<open>
  The loop \<^verbatim>\<open>for serializer in serializers\<close>. Its result is the events performed, in
  order, and the exception that ended the run, if one did. On a class,
  \<^verbatim>\<open>serializer.split('.')\<close> raises \<^verbatim>\<open>AttributeError\<close>: a class has no attribute
  \<^verbatim>\<open>split\<close>.
\<close>

fun for_serializers :: "sys_modules \<Rightarrow> string \<Rightarrow> options \<Rightarrow> item list \<Rightarrow> event list \<times> error option" where
  "for_serializers mods output opts [] = ([], None)"
| "for_serializers mods output opts (Cls c # rest) = ([], Some (AttributeError c ''split''))"
| "for_serializers mods output opts (Str serializer # rest) =
     (let serializers_list = resolve mods serializer;
          emitted = concat (map (command_generate_ts output opts) serializers_list);
          later = for_serializers mods output opts rest
      in (emitted @ fst later, snd later))"

definition handle :: "env \<Rightarrow> string list \<Rightarrow> string \<Rightarrow> bool \<Rightarrow> options \<Rightarrow> event list \<times> error option" where
  "handle e serializers output all_flag opts =
     (if all_flag \<and> serializers \<noteq> []
        then ([], Some (CommandError ''Only --all or --serializers must be specified, not together''))
      else for_serializers (modules e) output opts
             (if all_flag then all_apps e (app_configs e) (map Str serializers)
              else map Str serializers))"

text \<open>The namespace \<^verbatim>\<open>handle\<close> has \<^verbatim>\<open>_get_serializers_for_module\<close> scan for a specifier.\<close>

definition scanned_namespace :: "string \<Rightarrow> string" where
  "scanned_namespace serializer =
     (case str_split CHR ''.'' serializer of
        [app_name] \<Rightarrow> app_name @ ''.serializers''
      | [app_name, serializer_name] \<Rightarrow> app_name
      | _ \<Rightarrow> serializer)"

text \<open>The calls of each kind that a run makes for one context.\<close>

fun is_register :: "string \<Rightarrow> event \<Rightarrow> bool" where
  "is_register ctx (TsInterface c d) = (c = ctx)"
| "is_register ctx (GenerateTs p c opts) = False"
| "is_register ctx (StdoutWrite l) = False"

fun is_flush :: "string \<Rightarrow> event \<Rightarrow> bool" where
  "is_flush ctx (TsInterface c d) = False"
| "is_flush ctx (GenerateTs p c opts) = (c = ctx)"
| "is_flush ctx (StdoutWrite l) = False"

definition register_count :: "string \<Rightarrow> event list \<Rightarrow> nat" where
  "register_count ctx evs = length (filter (is_register ctx) evs)"

definition flush_count :: "string \<Rightarrow> event list \<Rightarrow> nat" where
  "flush_count ctx evs = length (filter (is_flush ctx) evs)"

section \<open>The emitter\<close>

text \<open>
  \<^verbatim>\<open>ts_interface\<close> and \<^verbatim>\<open>generate_ts\<close> belong to the package \<^verbatim>\<open>django_typomatic\<close>;
  the command imports them, and their code is not among the sources at hand. What follows is
  the emitter as the spec describes it: a registry per context, and a file per context.
\<close>

type_synonym registry = "string \<Rightarrow> (string \<times> decl) list"

text \<open>
  Modelled from the spec: the body of \<^verbatim>\<open>ts_interface\<close> is missing. The spec calls it
  \<^verbatim>\<open>register_declaration(declaration, context_key)\<close>, "pure in-memory bookkeeping", and
  says that "registration is a set-like operation keyed by declared name within context":
  a declaration whose declared name the context already holds changes nothing.
\<close>

definition register_declaration :: "decl \<Rightarrow> string \<Rightarrow> registry \<Rightarrow> registry" where
  "register_declaration d ctx reg =
     (if declared_name d \<in> set (map fst (reg ctx)) then reg
      else reg(ctx := reg ctx @ [(declared_name d, d)]))"

record emitter =
  registry :: registry
  files :: "py_path \<Rightarrow> (string \<times> decl) list option"

text \<open>
  Modelled from the spec: the body of \<^verbatim>\<open>generate_ts\<close> is missing. The spec calls it
  \<^verbatim>\<open>flush(output_path, context_key, config)\<close>, which writes the file of the context from
  what the context has accumulated. The rendering of an entry is the emitter's own matter;
  the file is kept as the list of entries written to it.
\<close>

definition flush :: "py_path \<Rightarrow> string \<Rightarrow> emitter \<Rightarrow> emitter" where
  "flush output_path ctx em = em\<lparr>files := (files em)(output_path \<mapsto> registry em ctx)\<rparr>"

text \<open>The calls of the command, replayed on the emitter in the order the command makes them.\<close>

fun emit :: "emitter \<Rightarrow> event \<Rightarrow> emitter" where
  "emit em (TsInterface ctx d) = em\<lparr>registry := register_declaration d ctx (registry em)\<rparr>"
| "emit em (GenerateTs output_path ctx opts) = flush output_path ctx em"
| "emit em (StdoutWrite l) = em"

definition fresh_emitter :: emitter where
  "fresh_emitter = \<lparr>registry = (\<lambda>ctx. []), files = Map.empty\<rparr>"

definition run_emitter :: "event list \<Rightarrow> emitter" where
  "run_emitter evs = foldl emit fresh_emitter evs"

section \<open>A small project\<close>

text \<open>
  The package \<^verbatim>\<open>billing\<close> with two serializers defined in \<^verbatim>\<open>billing.serializers\<close>, one
  more defined in \<^verbatim>\<open>billing.serializers.internal\<close> and imported into
  \<^verbatim>\<open>billing.serializers\<close>, and one imported from the package \<^verbatim>\<open>shared\<close>.
\<close>

definition Invoice :: decl where
  "Invoice = \<lparr>qualified_origin = ''billing.serializers'', declared_name = ''InvoiceSerializer'',
              is_serializer = True\<rparr>"

definition LineItem :: decl where
  "LineItem = \<lparr>qualified_origin = ''billing.serializers'', declared_name = ''LineItemSerializer'',
               is_serializer = True\<rparr>"

definition Audit :: decl where
  "Audit = \<lparr>qualified_origin = ''billing.serializers.internal'', declared_name = ''AuditSerializer'',
            is_serializer = True\<rparr>"

definition Shared :: decl where
  "Shared = \<lparr>qualified_origin = ''shared.serializers'', declared_name = ''SharedSerializer'',
             is_serializer = True\<rparr>"

definition billing_modules :: sys_modules where
  "billing_modules = map_of
     [(''billing'', [(''serializers'', NonClass)]),
      (''billing.serializers'',
         [(''AuditSerializer'', Class Audit), (''InvoiceSerializer'', Class Invoice),
          (''LineItemSerializer'', Class LineItem), (''SharedSerializer'', Class Shared),
          (''__name__'', NonClass), (''_private'', NonClass), (''internal'', NonClass)]),
      (''billing.serializers.internal'', [(''AuditSerializer'', Class Audit)])]"

definition billing_env :: env where
  "billing_env = \<lparr>modules = billing_modules,
                   app_configs = [\<lparr>cfg_name = ''billing'', cfg_path = ''/srv/project/billing''\<rparr>,
                                  \<lparr>cfg_name = ''rest_framework'',
                                   cfg_path = ''/srv/project/.venv/lib/rest_framework''\<rparr>],
                   base_dir_parent = ''/srv''\<rparr>"

definition no_options :: options where
  "no_options = \<lparr>trim = False, camelize = False, annotations = False, enum_choices = False,
                 enum_values = False, enum_keys = False\<rparr>"

text \<open>
  A module \<^verbatim>\<open>flat\<close> in one file: it defines \<^verbatim>\<open>Foo\<close> and imports \<^verbatim>\<open>Pump\<close> from
  the unrelated module \<^verbatim>\<open>inflate\<close>.
\<close>

definition Foo :: decl where
  "Foo = \<lparr>qualified_origin = ''flat'', declared_name = ''Foo'', is_serializer = True\<rparr>"

definition Pump :: decl where
  "Pump = \<lparr>qualified_origin = ''inflate'', declared_name = ''Pump'', is_serializer = True\<rparr>"

definition flat_modules :: sys_modules where
  "flat_modules = map_of
     [(''flat'', [(''Foo'', Class Foo), (''Pump'', Class Pump)]),
      (''inflate'', [(''Pump'', Class Pump)])]"

section \<open>Properties of the string operations\<close>

lemma str_split_not_Nil: "str_split sep s \<noteq> []"
  by (induction s) (auto split: list.splits)

lemma startswith_iff: "startswith s p \<longleftrightarrow> (\<exists>post. s = p @ post)"
  by (induction s p rule: startswith.induct) auto

lemma py_in_iff: "py_in sub s \<longleftrightarrow> (\<exists>pre post. s = pre @ sub @ post)"
proof (induction s)
  case Nil
  then show ?case by auto
next
  case (Cons c cs)
  show ?case
  proof
    assume "py_in sub (c # cs)"
    then consider "startswith (c # cs) sub" | "py_in sub cs" by auto
    then show "\<exists>pre post. c # cs = pre @ sub @ post"
    proof cases
      case 1
      then obtain post where "c # cs = sub @ post" by (auto simp: startswith_iff)
      then have "c # cs = [] @ sub @ post" by simp
      then show ?thesis by blast
    next
      case 2
      then obtain pre post where "cs = pre @ sub @ post" using Cons.IH by auto
      then have "c # cs = (c # pre) @ sub @ post" by simp
      then show ?thesis by blast
    qed
  next
    assume "\<exists>pre post. c # cs = pre @ sub @ post"
    then obtain pre post where e: "c # cs = pre @ sub @ post" by blast
    show "py_in sub (c # cs)"
    proof (cases pre)
      case Nil
      with e have "startswith (c # cs) sub" by (auto simp: startswith_iff)
      then show ?thesis by simp
    next
      case (Cons a pre')
      with e have "cs = pre' @ sub @ post" by simp
      then have "py_in sub cs" using Cons.IH by blast
      then show ?thesis by simp
    qed
  qed
qed

lemma hd_str_split: "hd (str_split sep s) = takeWhile (\<lambda>c. c \<noteq> sep) s"
  by (induction s) (auto split: list.splits simp: str_split_not_Nil)

section \<open>Properties of the resolver\<close>

lemma possibly_None: "possibly_serializers None = []"
  by (simp add: possibly_serializers_def dir_py_def dir_None_def)

lemma scan_mem:
  "c \<in> set (scan m nm bs) \<longleftrightarrow>
     (\<exists>n. (n, Class c) \<in> set bs) \<and> py_in m (qualified_origin c)
     \<and> \<not> (truthy nm \<and> Some (declared_name c) \<noteq> nm) \<and> is_serializer c"
  by (induction m nm bs rule: scan.induct) auto

lemma get_serializers_for_module_mem:
  "c \<in> set (get_serializers_for_module mods m nm) \<longleftrightarrow>
     (\<exists>n. (n, Class c) \<in> set (dir_py (mods m)) \<and> \<not> startswith n ''_'')
     \<and> py_in m (qualified_origin c)
     \<and> \<not> (truthy nm \<and> Some (declared_name c) \<noteq> nm) \<and> is_serializer c"
  by (auto simp: get_serializers_for_module_def scan_mem possibly_serializers_def)

lemma get_serializers_for_module_not_loaded:
  "mods m = None \<Longrightarrow> get_serializers_for_module mods m nm = []"
  by (simp add: get_serializers_for_module_def possibly_None)

lemma resolve_scanned:
  "resolve mods s = get_serializers_for_module mods (scanned_namespace s)
      (case str_split CHR ''.'' s of [a, n] \<Rightarrow> Some n | _ \<Rightarrow> None)"
  by (simp add: resolve_def scanned_namespace_def get_app_serializers_def
        get_submodule_serializers_def split: list.splits)

section \<open>Properties of the run\<close>

lemma for_serializers_no_CommandError:
  "snd (for_serializers mods out opts items) \<noteq> Some (CommandError msg)"
  by (induction mods out opts items rule: for_serializers.induct) (auto simp: Let_def)

lemma for_serializers_events:
  "\<exists>ds. fst (for_serializers mods out opts items) = concat (map (command_generate_ts out opts) ds)"
proof (induction mods out opts items rule: for_serializers.induct)
  case (1 mods out opts)
  have "fst (for_serializers mods out opts []) = concat (map (command_generate_ts out opts) [])"
    by simp
  then show ?case by blast
next
  case (2 mods out opts c rest)
  have "fst (for_serializers mods out opts (Cls c # rest)) = concat (map (command_generate_ts out opts) [])"
    by simp
  then show ?case by blast
next
  case (3 mods out opts s rest)
  then obtain ds where ds: "fst (for_serializers mods out opts rest) = concat (map (command_generate_ts out opts) ds)"
    by blast
  have "fst (for_serializers mods out opts (Str s # rest))
          = concat (map (command_generate_ts out opts) (resolve mods s @ ds))"
    by (simp add: Let_def ds)
  then show ?case by blast
qed

lemma handle_events:
  "\<exists>ds. fst (handle e ss out all_flag opts) = concat (map (command_generate_ts out opts) ds)"
proof (cases "all_flag \<and> ss \<noteq> []")
  case True
  then have "fst (handle e ss out all_flag opts) = concat (map (command_generate_ts out opts) [])"
    by (simp add: handle_def)
  then show ?thesis by blast
next
  case False
  then show ?thesis
    using for_serializers_events by (auto simp: handle_def)
qed

lemma counts_of_steps:
  "flush_count ctx (concat (map (command_generate_ts out opts) ds)) = length (filter (\<lambda>d. output_context d = ctx) ds)"
  "register_count ctx (concat (map (command_generate_ts out opts) ds)) = length (filter (\<lambda>d. output_context d = ctx) ds)"
  by (induction ds) (auto simp: flush_count_def register_count_def command_generate_ts_def Let_def)

lemma register_in_steps:
  "TsInterface c d \<in> set (concat (map (command_generate_ts out opts) ds)) \<Longrightarrow> c = output_context d"
  by (induction ds) (auto simp: command_generate_ts_def Let_def)

lemma command_generate_ts_shape:
  "command_generate_ts out opts d =
     [TsInterface (output_context d) d,
      GenerateTs (Div (Div (Path out) (output_context d)) ''index.ts'') (output_context d) opts,
      StdoutWrite (''[+] '' @ qualified_origin d @ ''.'' @ declared_name d)]"
  by (simp add: command_generate_ts_def Let_def)

lemma flush_follows_register:
  "concat (map (command_generate_ts out opts) ds) = pre @ TsInterface c d # post \<Longrightarrow>
     \<exists>post'. post = GenerateTs (Div (Div (Path out) c) ''index.ts'') c opts # post'"
proof (induction ds arbitrary: pre)
  case Nil
  then show ?case by simp
next
  case (Cons d0 ds)
  note step = command_generate_ts_shape [of out opts d0]
  show ?case
  proof (cases pre)
    case Nil
    with Cons.prems show ?thesis by (auto simp: step)
  next
    case (Cons a1 pre1)
    note p1 = this
    show ?thesis
    proof (cases pre1)
      case Nil
      with p1 Cons.prems show ?thesis by (auto simp: step)
    next
      case (Cons a2 pre2)
      note p2 = this
      show ?thesis
      proof (cases pre2)
        case Nil
        with p1 p2 Cons.prems show ?thesis by (auto simp: step)
      next
        case (Cons a3 pre3)
        with p1 p2 Cons.prems
        have "concat (map (command_generate_ts out opts) ds) = pre3 @ TsInterface c d # post"
          by (simp add: step)
        then show ?thesis by (rule Cons.IH)
      qed
    qed
  qed
qed

lemma register_in_handle:
  "TsInterface c d \<in> set (fst (handle e ss out all_flag opts)) \<Longrightarrow> c = output_context d"
proof -
  assume a: "TsInterface c d \<in> set (fst (handle e ss out all_flag opts))"
  obtain ds where "fst (handle e ss out all_flag opts) = concat (map (command_generate_ts out opts) ds)"
    using handle_events by blast
  with a show ?thesis using register_in_steps by metis
qed

section \<open>Properties of the emitter\<close>

lemma register_declaration_keys:
  "distinct (map fst (reg ctx')) \<Longrightarrow> distinct (map fst (register_declaration d ctx reg ctx'))"
  by (auto simp: register_declaration_def)

lemma emit_keys:
  "(\<And>ctx. distinct (map fst (registry em ctx))) \<Longrightarrow> distinct (map fst (registry (emit em ev) ctx))"
  by (cases ev) (simp_all add: register_declaration_keys flush_def)

lemma foldl_emit_keys:
  "(\<And>ctx. distinct (map fst (registry em ctx))) \<Longrightarrow> distinct (map fst (registry (foldl emit em evs) ctx))"
proof (induction evs arbitrary: em ctx)
  case Nil
  then show ?case by simp
next
  case (Cons ev evs)
  have "\<And>ctx. distinct (map fst (registry (emit em ev) ctx))"
    using Cons.prems by (rule emit_keys)
  then show ?case using Cons.IH by simp
qed

section \<open>The claims\<close>

subsection \<open>C1: which candidates the scan keeps\<close>

text \<open>
  C1 at the two projects above. Under its comment "Skip imported serializer classes" the
  source tests \<^verbatim>\<open>module_name not in serializer_class.__module__\<close>, which on strings is
  a substring test and not the comparison of the two paths. The scan of
  \<^verbatim>\<open>billing.serializers\<close> keeps \<^verbatim>\<open>AuditSerializer\<close>, which is defined in
  \<^verbatim>\<open>billing.serializers.internal\<close> and only imported; the scan of \<^verbatim>\<open>flat\<close> keeps
  \<^verbatim>\<open>Pump\<close>, which is imported from \<^verbatim>\<open>inflate\<close>. The class imported from
  \<^verbatim>\<open>shared.serializers\<close> is skipped, as the comment says.
\<close>

theorem imported_class_is_kept:
  "get_serializers_for_module billing_modules ''billing.serializers'' None
     = [Audit, Invoice, LineItem]
   \<and> qualified_origin Audit \<noteq> ''billing.serializers''
   \<and> get_serializers_for_module flat_modules ''flat'' None = [Foo, Pump]
   \<and> qualified_origin Pump \<noteq> ''flat''"
  by code_simp

subsection \<open>C2: a specifier of two segments\<close>

text \<open>
  C2 at \<^verbatim>\<open>billing.InvoiceSerializer\<close>. With one segment \<^verbatim>\<open>handle\<close> goes through
  \<^verbatim>\<open>_get_app_serializers\<close>, which scans \<^verbatim>\<open>billing.serializers\<close>; with two segments it
  hands \<^verbatim>\<open>app_name\<close> itself to \<^verbatim>\<open>_get_serializers_for_module\<close>, so the package
  \<^verbatim>\<open>billing\<close> is scanned and the serializer defined in \<^verbatim>\<open>billing.serializers\<close> is not
  found. The scan of \<^verbatim>\<open>billing.serializers\<close> with the same name finds it.
\<close>

theorem two_segments_scan_the_package:
  "resolve billing_modules ''billing.InvoiceSerializer'' = []
   \<and> resolve billing_modules ''billing'' = [Audit, Invoice, LineItem]
   \<and> get_serializers_for_module billing_modules ''billing.serializers'' (Some ''InvoiceSerializer'')
       = [Invoice]"
  by code_simp

subsection \<open>C3: how often a context is flushed\<close>

text \<open>
  C3, as the code has it. \<^verbatim>\<open>_generate_ts\<close> calls \<^verbatim>\<open>generate_ts\<close> once for every
  declaration, right after registering it. So in every run a context is flushed as many times
  as declarations are registered for it, and every registration is followed at once by the
  flush of its context to \<^verbatim>\<open>output/context/index.ts\<close>; the last flush of a context comes
  after all of its registrations.
\<close>

theorem flushed_after_each_registration:
  "flush_count ctx (fst (handle e ss out all_flag opts))
     = register_count ctx (fst (handle e ss out all_flag opts))
   \<and> (\<forall>pre c d post. fst (handle e ss out all_flag opts) = pre @ TsInterface c d # post \<longrightarrow>
         (\<exists>post'. post = GenerateTs (Div (Div (Path out) c) ''index.ts'') c opts # post'))"
proof -
  obtain ds where ds: "fst (handle e ss out all_flag opts) = concat (map (command_generate_ts out opts) ds)"
    using handle_events by blast
  show ?thesis
    unfolding ds using flush_follows_register by (simp add: counts_of_steps)
qed

text \<open>The run on the specifier \<^verbatim>\<open>billing\<close>: its first registration and what follows it.\<close>

theorem flushed_after_each_registration_witness:
  "fst (handle billing_env [''billing''] ''./types'' False no_options)
     = [] @ TsInterface ''billing'' Audit
          # tl (fst (handle billing_env [''billing''] ''./types'' False no_options))
   \<and> (\<exists>post'. tl (fst (handle billing_env [''billing''] ''./types'' False no_options))
         = GenerateTs (Div (Div (Path ''./types'') ''billing'') ''index.ts'') ''billing'' no_options # post')
   \<and> flush_count ''billing'' (fst (handle billing_env [''billing''] ''./types'' False no_options))
       = register_count ''billing'' (fst (handle billing_env [''billing''] ''./types'' False no_options))"
proof -
  have h: "fst (handle billing_env [''billing''] ''./types'' False no_options)
     = [] @ TsInterface ''billing'' Audit
          # tl (fst (handle billing_env [''billing''] ''./types'' False no_options))"
    by code_simp
  from flushed_after_each_registration
         [of "''billing''" billing_env "[''billing'']" "''./types''" False no_options] h
  show ?thesis by blast
qed

text \<open>
  Three declarations feed into the context \<^verbatim>\<open>billing\<close> in that run, and the context is
  flushed three times, not once.
\<close>

theorem flushed_once_counterexample:
  "flush_count ''billing'' (fst (handle billing_env [''billing''] ''./types'' False no_options)) = 3"
  by code_simp

subsection \<open>C4: both selection modes\<close>

text \<open>
  C4. When \<^verbatim>\<open>--all\<close> is given together with a non-empty list of specifiers, the run ends
  with \<^verbatim>\<open>CommandError\<close> and has performed nothing: no call of the emitter, no line on
  \<^verbatim>\<open>stdout\<close>. The result does not depend on the loaded modules or on the registry of
  packages, which are not consulted.
\<close>

theorem both_modes_is_configuration_error:
  assumes "all_flag" and "serializers \<noteq> []"
  shows "handle e serializers out all_flag opts
           = ([], Some (CommandError ''Only --all or --serializers must be specified, not together''))"
  using assms by (simp add: handle_def)

text \<open>The run with \<^verbatim>\<open>--all\<close> and the specifier \<^verbatim>\<open>billing\<close>.\<close>

theorem both_modes_is_configuration_error_witness:
  "handle billing_env [''billing''] ''./types'' True no_options
     = ([], Some (CommandError ''Only --all or --serializers must be specified, not together''))"
  using both_modes_is_configuration_error [of True "[''billing'']" billing_env "''./types''" no_options]
  by simp

subsection \<open>C5: the expansion of \<^verbatim>\<open>--all\<close>\<close>

text \<open>
  C5 at the project above, with \<^verbatim>\<open>--all\<close> and no specifier. The package \<^verbatim>\<open>billing\<close>
  passes the filter on paths and \<^verbatim>\<open>rest_framework\<close> does not; but what the loop adds to
  \<^verbatim>\<open>serializers\<close> is the classes \<^verbatim>\<open>_get_app_serializers\<close> returns, not the name of the
  package, and the loop over \<^verbatim>\<open>serializers\<close> then calls \<^verbatim>\<open>split\<close> on a class. The run
  ends with \<^verbatim>\<open>AttributeError\<close> before any declaration is processed.
\<close>

theorem all_packages_raises_AttributeError:
  "handle billing_env [] ''./types'' True no_options = ([], Some (AttributeError Audit ''split''))
   \<and> all_apps billing_env (app_configs billing_env) [] = [Cls Audit, Cls Invoice, Cls LineItem]"
  by code_simp

subsection \<open>C6: a specifier that resolves to nothing\<close>

text \<open>
  C6, as the code has it. When the namespace that \<^verbatim>\<open>handle\<close> scans for a specifier is not
  a loaded module, or when the specifier is \<^verbatim>\<open>namespace.Name\<close> with a non-empty
  \<^verbatim>\<open>Name\<close> and no class bound in the scanned namespace has the declared name \<^verbatim>\<open>Name\<close>,
  the specifier resolves to the empty list, nothing is raised, and the run goes on with the
  remaining specifiers as if the specifier had not been there.
\<close>

theorem resolution_miss_is_empty:
  assumes "mods (scanned_namespace s) = None
           \<or> (\<exists>ns nm. str_split CHR ''.'' s = [ns, nm] \<and> nm \<noteq> []
                \<and> (\<forall>n c. (n, Class c) \<in> set (dir_py (mods ns)) \<longrightarrow> declared_name c \<noteq> nm))"
  shows "resolve mods s = []
         \<and> for_serializers mods out opts (Str s # rest) = for_serializers mods out opts rest"
proof -
  have "set (resolve mods s) = {}"
    using assms
  proof
    assume "mods (scanned_namespace s) = None"
    then show ?thesis by (simp add: resolve_scanned get_serializers_for_module_not_loaded)
  next
    assume "\<exists>ns nm. str_split CHR ''.'' s = [ns, nm] \<and> nm \<noteq> []
                \<and> (\<forall>n c. (n, Class c) \<in> set (dir_py (mods ns)) \<longrightarrow> declared_name c \<noteq> nm)"
    then obtain ns nm where sp: "str_split CHR ''.'' s = [ns, nm]" and ne: "nm \<noteq> []"
      and no: "\<forall>n c. (n, Class c) \<in> set (dir_py (mods ns)) \<longrightarrow> declared_name c \<noteq> nm"
      by blast
    have "resolve mods s = get_serializers_for_module mods ns (Some nm)"
      by (simp add: resolve_def sp)
    moreover have "\<forall>c. c \<notin> set (get_serializers_for_module mods ns (Some nm))"
      using no ne by (auto simp: get_serializers_for_module_mem truthy_def)
    then have "set (get_serializers_for_module mods ns (Some nm)) = {}" by auto
    ultimately show ?thesis by simp
  qed
  then have "resolve mods s = []" by simp
  then show ?thesis by (simp add: Let_def)
qed

text \<open>
  A package that is not loaded, a nested namespace that is not loaded, and a name that no
  class of the scanned namespace has; each time the run goes on with \<^verbatim>\<open>billing\<close>.
\<close>

theorem resolution_miss_is_empty_witness:
  "(resolve billing_modules ''payments'' = []
    \<and> for_serializers billing_modules ''./types'' no_options [Str ''payments'', Str ''billing'']
        = for_serializers billing_modules ''./types'' no_options [Str ''billing''])
   \<and> (resolve billing_modules ''billing.serializers.NonExistent'' = []
    \<and> for_serializers billing_modules ''./types'' no_options
          [Str ''billing.serializers.NonExistent'', Str ''billing'']
        = for_serializers billing_modules ''./types'' no_options [Str ''billing''])
   \<and> (resolve billing_modules ''billing.NonExistent'' = []
    \<and> for_serializers billing_modules ''./types'' no_options [Str ''billing.NonExistent'', Str ''billing'']
        = for_serializers billing_modules ''./types'' no_options [Str ''billing''])"
proof -
  have a: "billing_modules (scanned_namespace ''payments'') = None"
    by code_simp
  have b: "billing_modules (scanned_namespace ''billing.serializers.NonExistent'') = None"
    by code_simp
  have c1: "str_split CHR ''.'' ''billing.NonExistent'' = [''billing'', ''NonExistent'']"
    by code_simp
  have c2: "dir_py (billing_modules ''billing'') = [(''serializers'', NonClass)]"
    by code_simp
  have c: "\<exists>ns nm. str_split CHR ''.'' ''billing.NonExistent'' = [ns, nm] \<and> nm \<noteq> []
                \<and> (\<forall>n c. (n, Class c) \<in> set (dir_py (billing_modules ns)) \<longrightarrow> declared_name c \<noteq> nm)"
    using c1 c2 by simp
  show ?thesis
    using resolution_miss_is_empty
            [of billing_modules "''payments''" "''./types''" no_options "[Str ''billing'']"]
          resolution_miss_is_empty
            [of billing_modules "''billing.serializers.NonExistent''" "''./types''" no_options
                "[Str ''billing'']"]
          resolution_miss_is_empty
            [of billing_modules "''billing.NonExistent''" "''./types''" no_options
                "[Str ''billing'']"]
          a b c
    by blast
qed

text \<open>
  The name has to be non-empty. The source filters on the name only when
  \<^verbatim>\<open>serializer_name\<close> is truthy, and the second segment of \<^verbatim>\<open>flat.\<close> is the empty
  string: no declaration has that name, and the specifier resolves to every serializer that
  the scan of \<^verbatim>\<open>flat\<close> keeps.
\<close>

theorem empty_name_matches_all_counterexample:
  "str_split CHR ''.'' ''flat.'' = [''flat'', []]
   \<and> declared_name Foo \<noteq> [] \<and> declared_name Pump \<noteq> []
   \<and> resolve flat_modules ''flat.'' = [Foo, Pump]
   \<and> resolve flat_modules ''flat.'' \<noteq> []"
  by code_simp

subsection \<open>C7: the context of a declaration\<close>

text \<open>
  C7. Whatever the specifiers of a run are, a declaration is registered under the first
  dot-separated segment of its \<^verbatim>\<open>__module__\<close>, that is, under the characters before the
  first dot. Hence two declarations whose origins have the same first segment are registered
  under the same context, also when they are reached in different runs or through specifiers
  of different shapes.
\<close>

theorem context_is_first_segment:
  assumes "TsInterface c1 d1 \<in> set (fst (handle e1 ss1 out1 all1 opts1))"
    and "TsInterface c2 d2 \<in> set (fst (handle e2 ss2 out2 all2 opts2))"
    and "takeWhile (\<lambda>c. c \<noteq> CHR ''.'') (qualified_origin d1)
           = takeWhile (\<lambda>c. c \<noteq> CHR ''.'') (qualified_origin d2)"
  shows "c1 = takeWhile (\<lambda>c. c \<noteq> CHR ''.'') (qualified_origin d1)
         \<and> c1 = hd (str_split CHR ''.'' (qualified_origin d1))
         \<and> c1 = c2"
  using assms register_in_handle [of c1 d1] register_in_handle [of c2 d2]
  by (simp add: output_context_def hd_str_split)

text \<open>
  \<^verbatim>\<open>InvoiceSerializer\<close> reached through \<^verbatim>\<open>billing\<close> and \<^verbatim>\<open>AuditSerializer\<close> reached
  through \<^verbatim>\<open>billing.serializers.internal\<close> both land in the context \<^verbatim>\<open>billing\<close>.
\<close>

theorem context_is_first_segment_witness:
  "TsInterface ''billing'' Invoice
      \<in> set (fst (handle billing_env [''billing''] ''./types'' False no_options))
   \<and> TsInterface ''billing'' Audit
      \<in> set (fst (handle billing_env [''billing.serializers.internal''] ''./types'' False no_options))
   \<and> ''billing'' = takeWhile (\<lambda>c. c \<noteq> CHR ''.'') (qualified_origin Invoice)
   \<and> ''billing'' = hd (str_split CHR ''.'' (qualified_origin Invoice))"
proof -
  have a: "TsInterface ''billing'' Invoice
      \<in> set (fst (handle billing_env [''billing''] ''./types'' False no_options))"
    by code_simp
  have b: "TsInterface ''billing'' Audit
      \<in> set (fst (handle billing_env [''billing.serializers.internal''] ''./types'' False no_options))"
    by code_simp
  have c: "takeWhile (\<lambda>c. c \<noteq> CHR ''.'') (qualified_origin Invoice)
           = takeWhile (\<lambda>c. c \<noteq> CHR ''.'') (qualified_origin Audit)"
    by (simp add: Invoice_def Audit_def)
  from context_is_first_segment [OF a b c] a b show ?thesis by blast
qed

subsection \<open>C8: a specifier of three or more segments\<close>

text \<open>
  C8. A specifier of three or more segments is taken whole as the path of the namespace to
  scan: the candidates are all the bindings of that namespace whose name does not start with
  an underscore, and a class is in the result exactly when it is bound to such a name, the
  path occurs in its \<^verbatim>\<open>__module__\<close> and it is a serializer. No name filter applies.
\<close>

theorem three_segments_scan_the_whole_path:
  assumes "3 \<le> length (str_split CHR ''.'' s)"
  shows "resolve mods s
           = scan s None (filter (\<lambda>(name, v). \<not> startswith name ''_'') (dir_py (mods s)))
         \<and> (\<forall>c. c \<in> set (resolve mods s) \<longleftrightarrow>
               (\<exists>name. (name, Class c) \<in> set (dir_py (mods s)) \<and> \<not> startswith name ''_'')
               \<and> py_in s (qualified_origin c) \<and> is_serializer c)"
proof -
  have r: "resolve mods s = get_serializers_for_module mods s None"
    using assms
    by (auto simp: resolve_def get_submodule_serializers_def split: list.splits)
  show ?thesis
    unfolding r
    by (simp add: get_serializers_for_module_mem truthy_def)
       (simp add: get_serializers_for_module_def possibly_serializers_def)
qed

text \<open>The specifier \<^verbatim>\<open>billing.serializers.internal\<close>.\<close>

theorem three_segments_scan_the_whole_path_witness:
  "3 \<le> length (str_split CHR ''.'' ''billing.serializers.internal'')
   \<and> resolve billing_modules ''billing.serializers.internal''
       = scan ''billing.serializers.internal'' None
           (filter (\<lambda>(name, v). \<not> startswith name ''_'')
              (dir_py (billing_modules ''billing.serializers.internal'')))
   \<and> resolve billing_modules ''billing.serializers.internal'' = [Audit]"
proof -
  have h: "3 \<le> length (str_split CHR ''.'' ''billing.serializers.internal'')"
    by code_simp
  have v: "resolve billing_modules ''billing.serializers.internal'' = [Audit]"
    by code_simp
  from three_segments_scan_the_whole_path [OF h, of billing_modules] h v show ?thesis by blast
qed

subsection \<open>C9: registering twice\<close>

text \<open>
  C9, on the emitter as the spec describes it. Registering a declaration a second time under
  the same context leaves the registry as it was; processing a declaration twice leaves the
  emitter as processing it once does, and the file of its context then holds one entry for it;
  in any run, the entries of a context have pairwise different declared names.
\<close>

theorem registration_is_idempotent:
  "register_declaration d ctx (register_declaration d ctx reg) = register_declaration d ctx reg
   \<and> run_emitter (command_generate_ts out opts d @ command_generate_ts out opts d)
       = run_emitter (command_generate_ts out opts d)
   \<and> files (run_emitter (command_generate_ts out opts d @ command_generate_ts out opts d))
         (Div (Div (Path out) (output_context d)) ''index.ts'')
       = Some [(declared_name d, d)]
   \<and> distinct (map fst (registry (run_emitter evs) ctx))"
proof -
  have 1: "register_declaration d ctx (register_declaration d ctx reg) = register_declaration d ctx reg"
    by (simp add: register_declaration_def)
  have 2: "run_emitter (command_generate_ts out opts d @ command_generate_ts out opts d)
       = run_emitter (command_generate_ts out opts d)"
    by (simp add: run_emitter_def command_generate_ts_shape fresh_emitter_def flush_def
          register_declaration_def)
  have 3: "files (run_emitter (command_generate_ts out opts d))
         (Div (Div (Path out) (output_context d)) ''index.ts'')
       = Some [(declared_name d, d)]"
    by (simp add: run_emitter_def command_generate_ts_shape fresh_emitter_def flush_def
          register_declaration_def)
  have 4: "distinct (map fst (registry (run_emitter evs) ctx))"
    unfolding run_emitter_def by (rule foldl_emit_keys) (simp add: fresh_emitter_def)
  from 1 2 3 4 show ?thesis by simp
qed

text \<open>\<^verbatim>\<open>InvoiceSerializer\<close> processed twice.\<close>

theorem registration_is_idempotent_witness:
  "files (run_emitter (command_generate_ts ''./types'' no_options Invoice
                        @ command_generate_ts ''./types'' no_options Invoice))
         (Div (Div (Path ''./types'') ''billing'') ''index.ts'')
       = Some [(''InvoiceSerializer'', Invoice)]"
proof -
  have c: "output_context Invoice = ''billing''" by code_simp
  have n: "declared_name Invoice = ''InvoiceSerializer''" by code_simp
  from registration_is_idempotent
         [of Invoice "''billing''" "\<lambda>ctx. []" "''./types''" no_options "[]"]
  have "files (run_emitter (command_generate_ts ''./types'' no_options Invoice
                        @ command_generate_ts ''./types'' no_options Invoice))
         (Div (Div (Path ''./types'') (output_context Invoice)) ''index.ts'')
       = Some [(declared_name Invoice, Invoice)]"
    by blast
  then show ?thesis unfolding c n .
qed

subsection \<open>C10: \<^verbatim>\<open>--all\<close> with an empty list of specifiers\<close>

text \<open>
  C10. The guard of \<^verbatim>\<open>handle\<close> is \<^verbatim>\<open>all and serializers\<close>, and an empty list is falsy:
  with \<^verbatim>\<open>--all\<close> and a \<^verbatim>\<open>--serializers\<close> flag that lists nothing, the run is the run of
  the all-packages mode, and it does not end with \<^verbatim>\<open>CommandError\<close>.
\<close>

theorem all_with_no_specifier_is_all_packages:
  "handle e [] out True opts
     = for_serializers (modules e) out opts (all_apps e (app_configs e) [])
   \<and> snd (handle e [] out True opts) \<noteq> Some (CommandError msg)"
proof -
  have h: "handle e [] out True opts
     = for_serializers (modules e) out opts (all_apps e (app_configs e) [])"
    by (simp add: handle_def)
  show ?thesis unfolding h using for_serializers_no_CommandError by simp
qed

text \<open>The project above with \<^verbatim>\<open>--all\<close> and no specifier.\<close>

theorem all_with_no_specifier_is_all_packages_witness:
  "handle billing_env [] ''./types'' True no_options
     = for_serializers (modules billing_env) ''./types'' no_options
         (all_apps billing_env (app_configs billing_env) [])
   \<and> snd (handle billing_env [] ''./types'' True no_options)
       \<noteq> Some (CommandError ''Only --all or --serializers must be specified, not together'')
   \<and> all_apps billing_env (app_configs billing_env) [] = [Cls Audit, Cls Invoice, Cls LineItem]"
proof -
  have a: "all_apps billing_env (app_configs billing_env) [] = [Cls Audit, Cls Invoice, Cls LineItem]"
    by code_simp
  from all_with_no_specifier_is_all_packages
         [of billing_env "''./types''" no_options
             "''Only --all or --serializers must be specified, not together''"] a
  show ?thesis by blast
qed

end
